theory Spec2Isabelle
  imports Main "HOL-Library.Char_ord" "HOL-Library.List_Lexorder" "HOL-Library.Multiset"
begin

section \<open>Strings\<close>

text \<open>
  A Python \<open>str\<close> is modelled as a HOL \<open>string\<close>: a list of characters, each a code
  point below 256.  The comparison of two strings is Python's: lexicographic on code
  points (the order of \<open>HOL-Library.List_Lexorder\<close> over \<open>HOL-Library.Char_ord\<close>).
\<close>

abbreviation backslash :: char where
  "backslash \<equiv> CHR 0x5C"

abbreviation comma :: char where
  "comma \<equiv> CHR 0x2C"

text \<open>\<open>sep.join(xs)\<close> of Python.\<close>

fun str_join :: "string \<Rightarrow> string list \<Rightarrow> string" where
  "str_join sep [] = []"
| "str_join sep [x] = x"
| "str_join sep (x # y # ys) = x @ sep @ str_join sep (y # ys)"

section \<open>The comma-separated list parser\<close>

text \<open>
  \<open>_parse_csv_list_safely\<close> is a generator that walks its input once with two local
  variables, \<open>item\<close> and \<open>escaped\<close>.  The state of the loop is the triple of the items
  yielded so far, \<open>item\<close> and \<open>escaped\<close>; \<open>csv_step\<close> is the loop body and
  \<open>csv_finish\<close> the code after the loop.  The third branch of the body appends the
  pending backslash but leaves \<open>escaped\<close> as it is, as the source does.
\<close>

type_synonym csv_state = "string list \<times> string \<times> bool"

fun csv_step :: "csv_state \<Rightarrow> char \<Rightarrow> csv_state" where
  "csv_step (out, item, escaped) c =
     (if c = comma then
        (if escaped then (out, item @ [c], False)
         else (out @ [item], [], escaped))
      else if c = backslash then (out, item, True)
      else (out, (if escaped then item @ [backslash] else item) @ [c], escaped))"

fun csv_finish :: "csv_state \<Rightarrow> string list" where
  "csv_finish (out, item, escaped) =
     (let item' = (if escaped then item @ [backslash] else item)
      in if item' \<noteq> [] then out @ [item'] else out)"

definition csv_scan :: "string \<Rightarrow> csv_state" where
  "csv_scan v = foldl csv_step ([], [], False) v"

definition parse_csv_list_safely :: "string \<Rightarrow> string list" where
  "parse_csv_list_safely v = csv_finish (csv_scan v)"

text \<open>The three local variables of the loop after the whole of \<open>v\<close> has been read.\<close>

definition csv_yielded :: "string \<Rightarrow> string list" where
  "csv_yielded v = fst (csv_scan v)"

definition csv_item :: "string \<Rightarrow> string" where
  "csv_item v = fst (snd (csv_scan v))"

definition csv_escaped :: "string \<Rightarrow> bool" where
  "csv_escaped v = snd (snd (csv_scan v))"

text \<open>
  Modelled from the spec: \<open>join_csv_escaped\<close>, the encoding side of the round trip, is
  not a function of the source; the spec describes it as writing each literal comma of
  an item as backslash-comma and joining the items with commas.
\<close>

definition escape_commas :: "string \<Rightarrow> string" where
  "escape_commas p = concat (map (\<lambda>c. if c = comma then [backslash, comma] else [c]) p)"

definition join_csv_escaped :: "string list \<Rightarrow> string" where
  "join_csv_escaped parts = str_join [comma] (map escape_commas parts)"

section \<open>Python built-ins used by the client\<close>

text \<open>
  The functions of this section are Python's own (\<open>str.strip\<close>, \<open>str.split\<close>,
  \<open>str.partition\<close>, \<open>int\<close>, \<open>"%d" % n\<close>, \<open>os.path.basename\<close>, \<open>base64.b64encode\<close>,
  \<open>urllib.parse.quote\<close>), written out on strings of code points below 256.
\<close>

definition is_space :: "char \<Rightarrow> bool" where
  "is_space c = ((of_char c :: nat) \<in> {9, 10, 11, 12, 13, 28, 29, 30, 31, 32, 133, 160})"

definition strip :: "string \<Rightarrow> string" where
  "strip s = rev (dropWhile is_space (rev (dropWhile is_space s)))"

fun split_on :: "char \<Rightarrow> string \<Rightarrow> string list" where
  "split_on d [] = [[]]"
| "split_on d (c # cs) =
     (if c = d then [] # split_on d cs
      else (case split_on d cs of [] \<Rightarrow> [[c]] | x # xs \<Rightarrow> (c # x) # xs))"

definition partition_on :: "char \<Rightarrow> string \<Rightarrow> string \<times> string \<times> string" where
  "partition_on d s =
     (if d \<in> set s then (takeWhile (\<lambda>c. c \<noteq> d) s, [d], tl (dropWhile (\<lambda>c. c \<noteq> d) s))
      else (s, [], []))"

definition basename :: "string \<Rightarrow> string" where
  "basename s = rev (takeWhile (\<lambda>c. c \<noteq> CHR ''/'') (rev s))"

definition replace_char :: "char \<Rightarrow> char \<Rightarrow> string \<Rightarrow> string" where
  "replace_char a b s = map (\<lambda>c. if c = a then b else c) s"

definition digit_char :: "nat \<Rightarrow> char" where
  "digit_char n = char_of (48 + n)"

fun nat_str :: "nat \<Rightarrow> string" where
  "nat_str n = (if n < 10 then [digit_char n] else nat_str (n div 10) @ [digit_char (n mod 10)])"

declare nat_str.simps [simp del]

definition int_str :: "int \<Rightarrow> string" where
  "int_str i = (if i < 0 then CHR ''-'' # nat_str (nat (- i)) else nat_str (nat i))"

definition pad2 :: "nat \<Rightarrow> string" where
  "pad2 n = (if n < 10 then CHR ''0'' # nat_str n else nat_str n)"

definition pad4 :: "nat \<Rightarrow> string" where
  "pad4 n = replicate (4 - length (nat_str n)) (CHR ''0'') @ nat_str n"

definition is_digit :: "char \<Rightarrow> bool" where
  "is_digit c = (48 \<le> (of_char c :: nat) \<and> (of_char c :: nat) \<le> 57)"

text \<open>
  The digits of \<open>int(s)\<close>: decimal digits, where a single underscore may stand between
  two digits.  \<open>prev\<close> says that the character before was a digit.
\<close>

fun int_digits :: "bool \<Rightarrow> nat \<Rightarrow> string \<Rightarrow> nat option" where
  "int_digits prev acc [] = (if prev then Some acc else None)"
| "int_digits prev acc (c # cs) =
     (if is_digit c then int_digits True (acc * 10 + (of_char c - 48)) cs
      else if c = CHR ''_'' \<and> prev then int_digits False acc cs
      else None)"

text \<open>\<open>int(s)\<close>; \<open>None\<close> is the \<open>ValueError\<close>.\<close>

definition py_int :: "string \<Rightarrow> int option" where
  "py_int s =
     (case strip s of
        [] \<Rightarrow> None
      | c # cs \<Rightarrow>
          if c = CHR ''-'' then map_option (\<lambda>n. - int n) (int_digits False 0 cs)
          else if c = CHR ''+'' then map_option int (int_digits False 0 cs)
          else map_option int (int_digits False 0 (c # cs)))"

definition b64_alphabet :: string where
  "b64_alphabet = ''ABCDEFGHIJKLMNOPQRSTUVWXYZabcdefghijklmnopqrstuvwxyz0123456789+/''"

definition b64_char :: "nat \<Rightarrow> char" where
  "b64_char n = b64_alphabet ! (n mod 64)"

fun b64encode :: "string \<Rightarrow> string" where
  "b64encode [] = []"
| "b64encode [a] =
     (let x = (of_char a :: nat)
      in [b64_char (x div 4), b64_char ((x mod 4) * 16), CHR ''='', CHR ''=''])"
| "b64encode [a, b] =
     (let x = (of_char a :: nat); y = (of_char b :: nat)
      in [b64_char (x div 4), b64_char ((x mod 4) * 16 + y div 16),
          b64_char ((y mod 16) * 4), CHR ''=''])"
| "b64encode (a # b # c # rest) =
     (let x = (of_char a :: nat); y = (of_char b :: nat); z = (of_char c :: nat)
      in [b64_char (x div 4), b64_char ((x mod 4) * 16 + y div 16),
          b64_char ((y mod 16) * 4 + z div 64), b64_char (z mod 64)] @ b64encode rest)"

text \<open>
  \<open>s.encode("utf-8")\<close>: a code point below 128 is one byte, one from 128 to 255 is two.
\<close>

definition utf8 :: "string \<Rightarrow> string" where
  "utf8 s = concat (map (\<lambda>c. let n = (of_char c :: nat)
                               in if n < 128 then [c]
                                  else [char_of (192 + n div 64), char_of (128 + n mod 64)]) s)"

definition hex_digit :: "nat \<Rightarrow> char" where
  "hex_digit n = ''0123456789ABCDEF'' ! (n mod 16)"

definition always_safe :: "char \<Rightarrow> bool" where
  "always_safe c =
     (let n = (of_char c :: nat)
      in (65 \<le> n \<and> n \<le> 90) \<or> (97 \<le> n \<and> n \<le> 122) \<or> (48 \<le> n \<and> n \<le> 57)
         \<or> c \<in> set ''_.-~'')"

text \<open>
  \<open>quote_from_bytes(bs, safe)\<close>: a byte that is always safe or in \<open>safe\<close> stands for
  itself, any other byte is written as a percent sign and two upper-case hex digits.
\<close>

definition quote_byte :: "string \<Rightarrow> char \<Rightarrow> string" where
  "quote_byte safe c =
     (if always_safe c \<or> c \<in> set safe then [c]
      else (let n = (of_char c :: nat) in [CHR ''%'', hex_digit (n div 16), hex_digit (n mod 16)]))"

definition quote_from_bytes :: "string \<Rightarrow> string \<Rightarrow> string" where
  "quote_from_bytes safe bs = concat (map (quote_byte safe) bs)"

section \<open>Dictionaries\<close>

text \<open>
  A Python \<open>dict\<close> is an association list in insertion order with distinct keys:
  \<open>dict_set\<close> is \<open>d[k] = v\<close>, \<open>dict_update\<close> is \<open>d.update(e)\<close>, \<open>dict_get\<close> is the lookup
  and \<open>dict_pop\<close> removes a key.
\<close>

fun dict_set :: "'k \<Rightarrow> 'v \<Rightarrow> ('k \<times> 'v) list \<Rightarrow> ('k \<times> 'v) list" where
  "dict_set k v [] = [(k, v)]"
| "dict_set k v ((k', v') # d) = (if k' = k then (k', v) # d else (k', v') # dict_set k v d)"

definition dict_update :: "('k \<times> 'v) list \<Rightarrow> ('k \<times> 'v) list \<Rightarrow> ('k \<times> 'v) list" where
  "dict_update d e = foldl (\<lambda>acc kv. dict_set (fst kv) (snd kv) acc) d e"

definition dict_get :: "'k \<Rightarrow> ('k \<times> 'v) list \<Rightarrow> 'v option" where
  "dict_get k d = map_of d k"

definition dict_pop :: "'k \<Rightarrow> ('k \<times> 'v) list \<Rightarrow> ('k \<times> 'v) list" where
  "dict_pop k d = filter (\<lambda>kv. fst kv \<noteq> k) d"

section \<open>Exceptions\<close>

text \<open>
  The value of \<open>json.loads\<close>.  JSON \<open>null\<close> is Python's \<open>None\<close>, so \<open>JNull\<close> also stands
  for an attribute that is \<open>None\<close>.  Numbers are integers here.
\<close>

datatype json =
    JNull
  | JBool bool
  | JNum int
  | JStr string
  | JArr "json list"
  | JObj "(string \<times> json) list"

text \<open>
  The exception classes of the module.  \<open>Built n name\<close> is the class object made by the
  \<open>n\<close>-th call of \<open>_build_exception\<close>, with \<open>__name__ = name\<close>: every call makes a new
  class, so two calls give two different objects even for the same name.
\<close>

datatype exc_class =
    HTTPError_class
  | APIError_class
  | MultiError_class
  | UnauthorisedError_class
  | SignatureDoesNotMatchError_class
  | AuthFailureError_class
  | InvalidCredentialsError_class
  | Built nat string

text \<open>An instance of \<open>HTTPError\<close> or of a subclass, with the attributes \<open>__init__\<close> sets.\<close>

datatype exc = Exc
  (exc_cls: exc_class)
  (exc_code: nat)
  (exc_message: "string option")
  (exc_message_data: json)
  (exc_error_code: json)
  (exc_error_message: json)
  (exc_errors: "exc list")

datatype error =
    TypeError string
  | ValueError string
  | KeyError string
  | AttributeError string
  | OSError string
  | SyntaxError string
  | RecursionError
  | JSONDecodeError
  | TransportError string
  | Raised exc

section \<open>Values and parameter descriptions\<close>

text \<open>
  The values a caller passes: \<open>None\<close>, \<open>bool\<close>, \<open>int\<close>, \<open>str\<close>, \<open>datetime.date\<close>,
  \<open>datetime.datetime\<close> (without microseconds and time zone), \<open>list\<close> and \<open>dict\<close>.
  Floating-point values are not modelled.
\<close>

datatype pyval =
    VNone
  | VBool bool
  | VInt int
  | VStr string
  | VDate nat nat nat
  | VDateTime nat nat nat nat nat nat
  | VList "pyval list"
  | VDict "(pyval \<times> pyval) list"

text \<open>An encoded request value: \<open>str\<close>, or \<open>bytes\<close> for a \<open>data\<close> parameter.\<close>

datatype wire = WStr string | WBytes string

type_synonym wire_dict = "(string \<times> wire) list"

text \<open>
  A parameter description of the schema: the keys \<open>type\<close>, \<open>optional\<close>, \<open>default\<close>,
  \<open>item\<close>, \<open>key\<close>, \<open>value\<close> and \<open>fields\<close> of the dictionary.  A key that is absent is
  \<open>None\<close>; \<open>optional\<close> is the truth value of \<open>parameter.get("optional")\<close>.
\<close>

datatype param = Param
  (p_type: string)
  (p_optional: bool)
  (p_default: "pyval option")
  (p_item: "param option")
  (p_key: "param option")
  (p_value: "param option")
  (p_fields: "(string \<times> param) list option")

text \<open>\<open>parameter.get("default")\<close>.\<close>

definition get_default :: "pyval option \<Rightarrow> pyval" where
  "get_default d = (case d of None \<Rightarrow> VNone | Some v \<Rightarrow> v)"

text \<open>
  What the client reads from outside itself: the file system, the clock, the network,
  and the library functions that are not written out here (\<open>repr\<close> of a container,
  \<open>hmac\<close> with \<open>sha256\<close>, \<open>json.loads\<close>, \<open>urlparse\<close> and \<open>urlunparse\<close>).
  \<open>url_netloc uri\<close> is \<open>urlparse(uri)[1]\<close>, \<open>url_rest uri\<close> is
  \<open>urlunparse(("", "") + urlparse(uri)[2:])\<close>; \<open>http_post url body headers\<close> is the
  status code and the text of the response of \<open>session.post\<close>, or the exception it raises.
\<close>

record world =
  read_file :: "string \<Rightarrow> string option"
  repr_of :: "pyval \<Rightarrow> string"
  hmac_sha256 :: "string \<Rightarrow> string \<Rightarrow> string"
  json_loads :: "string \<Rightarrow> json option"
  gmtime_stamp :: string
  url_netloc :: "string \<Rightarrow> string"
  url_rest :: "string \<Rightarrow> string"
  http_post :: "string \<Rightarrow> string \<Rightarrow> (string \<times> string) list \<Rightarrow> error + (nat \<times> string)"

subsection \<open>Equality, truth and \<open>str\<close> of values\<close>

fun py_num :: "pyval \<Rightarrow> int option" where
  "py_num (VBool b) = Some (if b then 1 else 0)"
| "py_num (VInt i) = Some i"
| "py_num _ = None"

lemma size_prod_fst_snd:
  "size_prod f g = (\<lambda>kv. Suc (f (fst kv) + g (snd kv)))"
  by (auto simp: fun_eq_iff)

text \<open>Python's \<open>a == b\<close>: \<open>bool\<close> is a kind of \<open>int\<close>, a \<open>dict\<close> compares without order.\<close>

function (sequential) py_eq :: "pyval \<Rightarrow> pyval \<Rightarrow> bool"
  and py_eq_list :: "pyval list \<Rightarrow> pyval list \<Rightarrow> bool"
  and py_dict_has :: "pyval \<Rightarrow> pyval \<Rightarrow> (pyval \<times> pyval) list \<Rightarrow> bool"
  and py_dict_sub :: "(pyval \<times> pyval) list \<Rightarrow> (pyval \<times> pyval) list \<Rightarrow> bool"
where
  "py_eq VNone b = (b = VNone)"
| "py_eq (VBool x) b = (py_num b = Some (if x then 1 else 0))"
| "py_eq (VInt x) b = (py_num b = Some x)"
| "py_eq (VStr x) b = (b = VStr x)"
| "py_eq (VDate y m d) b = (b = VDate y m d)"
| "py_eq (VDateTime y m d H M S) b = (b = VDateTime y m d H M S)"
| "py_eq (VList xs) b = (case b of VList ys \<Rightarrow> py_eq_list xs ys | _ \<Rightarrow> False)"
| "py_eq (VDict xs) b =
     (case b of VDict ys \<Rightarrow> length xs = length ys \<and> py_dict_sub xs ys | _ \<Rightarrow> False)"
| "py_eq_list [] ys = (ys = [])"
| "py_eq_list (x # xs) ys = (case ys of [] \<Rightarrow> False | y # ys' \<Rightarrow> py_eq x y \<and> py_eq_list xs ys')"
| "py_dict_has k v [] = False"
| "py_dict_has k v (kv # ys) =
     (if py_eq k (fst kv) then py_eq v (snd kv) else py_dict_has k v ys)"
| "py_dict_sub [] ys = True"
| "py_dict_sub (kv # xs) ys = (py_dict_has (fst kv) (snd kv) ys \<and> py_dict_sub xs ys)"
  by pat_completeness auto
termination
  by (relation "measures
        [\<lambda>x. case x of
               Inl (Inl (a, b)) \<Rightarrow> size a
             | Inl (Inr (xs, ys)) \<Rightarrow> size_list size xs
             | Inr (Inl (k, v, ys)) \<Rightarrow> size k + size v + 1
             | Inr (Inr (xs, ys)) \<Rightarrow> size_list (\<lambda>kv. Suc (size (fst kv) + size (snd kv))) xs,
         \<lambda>x. case x of Inr (Inl (k, v, ys)) \<Rightarrow> length ys | _ \<Rightarrow> 0]")
    (auto simp: size_prod_fst_snd)

fun truthy :: "pyval \<Rightarrow> bool" where
  "truthy VNone = False"
| "truthy (VBool b) = b"
| "truthy (VInt i) = (i \<noteq> 0)"
| "truthy (VStr s) = (s \<noteq> [])"
| "truthy (VList xs) = (xs \<noteq> [])"
| "truthy (VDict kvs) = (kvs \<noteq> [])"
| "truthy _ = True"

fun py_str :: "world \<Rightarrow> pyval \<Rightarrow> string" where
  "py_str w VNone = ''None''"
| "py_str w (VBool b) = (if b then ''True'' else ''False'')"
| "py_str w (VInt i) = int_str i"
| "py_str w (VStr s) = s"
| "py_str w (VDate y m d) = pad4 y @ ''-'' @ pad2 m @ ''-'' @ pad2 d"
| "py_str w (VDateTime y m d H M S) =
     pad4 y @ ''-'' @ pad2 m @ ''-'' @ pad2 d @ '' '' @ pad2 H @ '':'' @ pad2 M @ '':'' @ pad2 S"
| "py_str w v = repr_of w v"

text \<open>\<open>value.strftime("%Y-%m-%dT%H:%M:%SZ")\<close>, for the values that have the method.\<close>

fun strftime_stamp :: "pyval \<Rightarrow> string option" where
  "strftime_stamp (VDate y m d) = Some (pad4 y @ ''-'' @ pad2 m @ ''-'' @ pad2 d @ ''T00:00:00Z'')"
| "strftime_stamp (VDateTime y m d H M S) =
     Some (pad4 y @ ''-'' @ pad2 m @ ''-'' @ pad2 d @ ''T'' @ pad2 H @ '':'' @ pad2 M @ '':''
           @ pad2 S @ ''Z'')"
| "strftime_stamp _ = None"

text \<open>\<open>"{}".format(v)\<close> of an encoded value.\<close>

fun wire_str :: "wire \<Rightarrow> string" where
  "wire_str (WStr s) = s"
| "wire_str (WBytes b) = ''b'' @ [CHR 0x27] @ b @ [CHR 0x27]"

section \<open>The parameter encoder\<close>

text \<open>\<open>_parse_csv_mapping_safely\<close>: every item of the list parser, split at its first \<open>=\<close>.\<close>

fun csv_mapping_pairs :: "string list \<Rightarrow> error + (string \<times> string) list" where
  "csv_mapping_pairs [] = Inr []"
| "csv_mapping_pairs (item # items) =
     (case partition_on (CHR ''='') item of
        (key, sep, val) \<Rightarrow>
          if sep = [] then Inl (ValueError (''invalid key/value pair '' @ item))
          else (case csv_mapping_pairs items of
                  Inl e \<Rightarrow> Inl e
                | Inr rest \<Rightarrow> Inr ((key, val) # rest)))"

definition parse_csv_mapping_safely :: "string \<Rightarrow> error + (string \<times> string) list" where
  "parse_csv_mapping_safely v = csv_mapping_pairs (parse_csv_list_safely v)"

subsection \<open>The scalar handlers\<close>

definition encode_str :: "world \<Rightarrow> string \<Rightarrow> pyval \<Rightarrow> error + wire_dict" where
  "encode_str w name arg = Inr [(name, WStr (py_str w arg))]"

definition encode_date :: "world \<Rightarrow> string \<Rightarrow> pyval \<Rightarrow> error + wire_dict" where
  "encode_date w name v =
     (case v of
        VStr s \<Rightarrow> Inr [(name, WStr s)]
      | _ \<Rightarrow> (case strftime_stamp v of
                None \<Rightarrow> Inl (AttributeError ''strftime'')
              | Some s \<Rightarrow> Inr [(name, WStr s)]))"

definition encode_unicode :: "world \<Rightarrow> string \<Rightarrow> pyval \<Rightarrow> error + wire_dict" where
  "encode_unicode w name v =
     (if strftime_stamp v \<noteq> None then encode_date w name v
      else Inr [(name, WStr (py_str w v))])"

definition encode_boolean :: "string \<Rightarrow> pyval \<Rightarrow> error + wire_dict" where
  "encode_boolean name v = Inr [(name, WStr (if truthy v then ''true'' else ''false''))]"

text \<open>
  \<open>open(value, "rb")\<close> and \<open>read\<close>: the contents of the named file, or the exception.
  A value that is not a string is not taken as a path.
\<close>

definition open_read :: "world \<Rightarrow> pyval \<Rightarrow> error + (string \<times> string)" where
  "open_read w v =
     (case v of
        VStr path \<Rightarrow> (case read_file w path of
                        None \<Rightarrow> Inl (OSError path)
                      | Some contents \<Rightarrow> Inr (path, contents))
      | _ \<Rightarrow> Inl (TypeError ''open''))"

definition encode_file :: "world \<Rightarrow> string \<Rightarrow> pyval \<Rightarrow> error + wire_dict" where
  "encode_file w name v =
     (case open_read w v of
        Inl e \<Rightarrow> Inl e
      | Inr (path, contents) \<Rightarrow>
          Inr [(name, WStr (basename path @ ''$$'' @ b64encode contents))])"

definition encode_data :: "world \<Rightarrow> string \<Rightarrow> pyval \<Rightarrow> error + wire_dict" where
  "encode_data w name v =
     (case open_read w v of
        Inl e \<Rightarrow> Inl e
      | Inr (path, contents) \<Rightarrow> Inr [(name, WBytes (b64encode contents))])"

subsection \<open>The loops of the container handlers\<close>

text \<open>
  The loop of \<open>_encode_list\<close> over \<open>enumerate(sequence)\<close>; \<open>enc\<close> is \<open>_encode_argument\<close>
  at \<open>parameter["item"]\<close>.
\<close>

fun encode_list_loop ::
  "(string \<Rightarrow> pyval \<Rightarrow> error + wire_dict) \<Rightarrow> string \<Rightarrow> nat \<Rightarrow> pyval list \<Rightarrow> wire_dict
     \<Rightarrow> error + wire_dict" where
  "encode_list_loop enc name i [] result = Inr result"
| "encode_list_loop enc name i (item # items) result =
     (case enc (name @ ''.'' @ nat_str (i + 1)) item of
        Inl e \<Rightarrow> Inl e
      | Inr encoded_item \<Rightarrow>
          encode_list_loop enc name (i + 1) items (dict_update result encoded_item))"

text \<open>
  The sequence \<open>_encode_list\<close> walks: the stripped pieces of a string split at every
  comma, the elements of a list, the keys of a dictionary.
\<close>

definition list_sequence :: "pyval \<Rightarrow> error + pyval list" where
  "list_sequence v =
     (case v of
        VStr s \<Rightarrow> Inr (map (\<lambda>item. VStr (strip item)) (split_on comma s))
      | VList xs \<Rightarrow> Inr xs
      | VDict kvs \<Rightarrow> Inr (map fst kvs)
      | _ \<Rightarrow> Inl (TypeError ''object is not iterable''))"

text \<open>\<open>key, value = x\<close>: the two elements of \<open>x\<close>.\<close>

definition unpack2 :: "pyval \<Rightarrow> error + (pyval \<times> pyval)" where
  "unpack2 x =
     (case x of
        VList xs \<Rightarrow> (case xs of [a, b] \<Rightarrow> Inr (a, b) | _ \<Rightarrow> Inl (ValueError ''unpack''))
      | VStr s \<Rightarrow> (case s of [a, b] \<Rightarrow> Inr (VStr [a], VStr [b]) | _ \<Rightarrow> Inl (ValueError ''unpack''))
      | VDict kvs \<Rightarrow> (case kvs of [a, b] \<Rightarrow> Inr (fst a, fst b) | _ \<Rightarrow> Inl (ValueError ''unpack''))
      | _ \<Rightarrow> Inl (TypeError ''cannot unpack non-iterable object''))"

text \<open>
  The loop of \<open>_encode_mapping\<close>; \<open>kenc\<close> and \<open>venc\<close> are \<open>_encode_argument\<close> at
  \<open>parameter["key"]\<close> and \<open>parameter["value"]\<close>.
\<close>

fun encode_mapping_loop ::
  "(string \<Rightarrow> pyval \<Rightarrow> error + wire_dict) \<Rightarrow> (string \<Rightarrow> pyval \<Rightarrow> error + wire_dict) \<Rightarrow> string
     \<Rightarrow> pyval list \<Rightarrow> wire_dict \<Rightarrow> error + wire_dict" where
  "encode_mapping_loop kenc venc name [] result = Inr result"
| "encode_mapping_loop kenc venc name (x # xs) result =
     (case unpack2 x of
        Inl e \<Rightarrow> Inl e
      | Inr (key, val) \<Rightarrow>
          (case kenc ''<key>'' key of
             Inl e \<Rightarrow> Inl e
           | Inr kd \<Rightarrow>
               (case dict_get ''<key>'' kd of
                  None \<Rightarrow> Inl (KeyError ''<key>'')
                | Some k \<Rightarrow>
                    (case venc (name @ ''.'' @ wire_str k) val of
                       Inl e \<Rightarrow> Inl e
                     | Inr vd \<Rightarrow> encode_mapping_loop kenc venc name xs (dict_update result vd)))))"

text \<open>
  What \<open>_encode_mapping\<close> binds \<open>items\<close> to before its loop.  A string is parsed into
  pairs and made a dictionary of stripped keys and values, and the loop then walks that
  dictionary, that is, its keys; a dictionary becomes the list of its pairs; anything
  else is left as it is.
\<close>

definition mapping_items :: "pyval \<Rightarrow> error + pyval" where
  "mapping_items v =
     (case v of
        VStr s \<Rightarrow>
          (case parse_csv_mapping_safely s of
             Inl e \<Rightarrow> Inl e
           | Inr pairs \<Rightarrow>
               Inr (VDict (foldl (\<lambda>d kv. dict_set (VStr (strip (fst kv))) (VStr (strip (snd kv))) d)
                                 [] pairs)))
      | VDict kvs \<Rightarrow> Inr (VList (map (\<lambda>kv. VList [fst kv, snd kv]) kvs))
      | _ \<Rightarrow> Inr v)"

text \<open>\<open>iter(x)\<close> for the loop \<open>for key, value in items\<close>.\<close>

definition iterate :: "pyval \<Rightarrow> error + pyval list" where
  "iterate v =
     (case v of
        VList xs \<Rightarrow> Inr xs
      | VDict kvs \<Rightarrow> Inr (map fst kvs)
      | VStr s \<Rightarrow> Inr (map (\<lambda>c. VStr [c]) s)
      | _ \<Rightarrow> Inl (TypeError ''object is not iterable''))"

text \<open>
  The loop of \<open>_encode_struct_fields\<close>, with its two variables \<open>arguments\<close> and
  \<open>result\<close>; \<open>enc\<close> is \<open>_encode_argument\<close>.
\<close>

fun struct_fields_loop ::
  "(param \<Rightarrow> string \<Rightarrow> pyval \<Rightarrow> error + wire_dict) \<Rightarrow> (string \<times> param) list
     \<Rightarrow> (pyval \<times> pyval) list \<Rightarrow> string \<Rightarrow> wire_dict
     \<Rightarrow> error + (wire_dict \<times> (pyval \<times> pyval) list)" where
  "struct_fields_loop enc [] arguments prefix result = Inr (result, arguments)"
| "struct_fields_loop enc (fld # flds) arguments prefix result =
     (case dict_get (VStr (fst fld)) arguments of
        None \<Rightarrow>
          if \<not> p_optional (snd fld)
          then Inl (TypeError (''Missing parameter '' @ fst fld))
          else struct_fields_loop enc flds arguments prefix result
      | Some v \<Rightarrow>
          (case enc (snd fld) (prefix @ fst fld) v of
             Inl e \<Rightarrow> Inl e
           | Inr encoded_item \<Rightarrow>
               struct_fields_loop enc flds (dict_pop (VStr (fst fld)) arguments) prefix
                 (dict_update result encoded_item)))"

definition struct_fields ::
  "(param \<Rightarrow> string \<Rightarrow> pyval \<Rightarrow> error + wire_dict) \<Rightarrow> (string \<times> param) list
     \<Rightarrow> (pyval \<times> pyval) list \<Rightarrow> string \<Rightarrow> error + wire_dict" where
  "struct_fields enc flds arguments prefix =
     (case struct_fields_loop enc flds arguments prefix [] of
        Inl e \<Rightarrow> Inl e
      | Inr (result, rest) \<Rightarrow>
          if rest \<noteq> [] then Inl (TypeError ''Extra arguments'') else Inr result)"

lemma encode_list_loop_cong [fundef_cong]:
  assumes "name = name'" "i = i'" "items = items'" "result = result'"
    and "\<And>nm v. v \<in> set items' \<Longrightarrow> enc nm v = enc' nm v"
  shows "encode_list_loop enc name i items result = encode_list_loop enc' name' i' items' result'"
  using assms(5) unfolding assms(1-4)
  by (induction enc name' i' items' result' rule: encode_list_loop.induct)
     (auto split: sum.splits)

lemma encode_mapping_loop_cong [fundef_cong]:
  assumes "name = name'" "items = items'" "result = result'"
    and "\<And>nm v. kenc nm v = kenc' nm v" and "\<And>nm v. venc nm v = venc' nm v"
  shows "encode_mapping_loop kenc venc name items result
           = encode_mapping_loop kenc' venc' name' items' result'"
proof -
  have "kenc = kenc'" "venc = venc'"
    using assms(4,5) by (auto simp: fun_eq_iff)
  then show ?thesis using assms(1-3) by simp
qed

lemma struct_fields_loop_cong [fundef_cong]:
  assumes "flds = flds'" "arguments = arguments'" "prefix = prefix'" "result = result'"
    and "\<And>p nm v. p \<in> snd ` set flds' \<Longrightarrow> enc p nm v = enc' p nm v"
  shows "struct_fields_loop enc flds arguments prefix result
           = struct_fields_loop enc' flds' arguments' prefix' result'"
  using assms(5) unfolding assms(1-4)
proof (induction enc flds' arguments' prefix' result' rule: struct_fields_loop.induct)
  case (1 enc arguments prefix result)
  show ?case by simp
next
  case (2 enc fld flds arguments prefix result)
  have hd: "enc (snd fld) nm v = enc' (snd fld) nm v" for nm v
    using "2.prems" by simp
  have tl: "\<And>p nm v. p \<in> snd ` set flds \<Longrightarrow> enc p nm v = enc' p nm v"
    using "2.prems" by simp
  show ?case
    using "2.IH"(1) [OF _ _ tl] "2.IH"(2) [OF _ _ tl] hd
    by (auto split: option.splits sum.splits)
qed

lemma struct_fields_cong [fundef_cong]:
  assumes "flds = flds'" "arguments = arguments'" "prefix = prefix'"
    and "\<And>p nm v. p \<in> snd ` set flds' \<Longrightarrow> enc p nm v = enc' p nm v"
  shows "struct_fields enc flds arguments prefix = struct_fields enc' flds' arguments' prefix'"
proof -
  have "struct_fields_loop enc flds' arguments' prefix' []
          = struct_fields_loop enc' flds' arguments' prefix' []"
    by (rule struct_fields_loop_cong) (simp_all add: assms(4))
  then show ?thesis
    unfolding struct_fields_def assms(1-3) by simp
qed

subsection \<open>\<open>_encode_argument\<close> and the container handlers\<close>

text \<open>
  \<open>_encode_argument\<close> suppresses a value equal to the default of an optional parameter,
  and otherwise looks up the method named \<open>_encode_\<close> followed by the kind, which is the type with
  spaces replaced by underscores.  The branches \<open>list\<close>, \<open>mapping\<close> and \<open>structure\<close> are
  the bodies of \<open>_encode_list\<close>, \<open>_encode_mapping\<close> and \<open>_encode_structure\<close>.  The class
  has two more methods the lookup can find: \<open>_encode_argument\<close> itself, which then calls
  itself without end, and \<open>_encode_struct_fields\<close>, which fails to unpack the keys of the
  parameter description.  A kind without a method is an \<open>AttributeError\<close>.
\<close>

lemma size_param_in_fields:
  "fp \<in> set fs \<Longrightarrow> size (snd fp) < Suc (size_list (\<lambda>x. Suc (size (snd x))) fs)"
  by (induction fs) auto

function (sequential) encode_argument :: "world \<Rightarrow> param \<Rightarrow> string \<Rightarrow> pyval \<Rightarrow> error + wire_dict"
where
  "encode_argument w (Param ty opt dflt item key val flds) name v =
     (if opt \<and> py_eq v (get_default dflt) then Inr []
      else
        (let kind = replace_char (CHR 0x20) (CHR ''_'') ty in
         if kind \<in> set [''integer'', ''float'', ''raw_string'', ''enum''] then encode_str w name v
         else if kind \<in> set [''unicode'', ''unicode_line'', ''unicode_title'']
           then encode_unicode w name v
         else if kind = ''file'' then encode_file w name v
         else if kind = ''boolean'' then encode_boolean name v
         else if kind = ''date'' then encode_date w name v
         else if kind = ''data'' then encode_data w name v
         else if kind = ''list'' then
           (case list_sequence v of
              Inl e \<Rightarrow> Inl e
            | Inr items \<Rightarrow>
                if items = [] then Inr []
                else (case item of
                        None \<Rightarrow> Inl (KeyError ''item'')
                      | Some ip \<Rightarrow> encode_list_loop (encode_argument w ip) name 0 items []))
         else if kind = ''mapping'' then
           (case mapping_items v of
              Inl e \<Rightarrow> Inl e
            | Inr items \<Rightarrow>
                (case key of
                   None \<Rightarrow> Inl (KeyError ''key'')
                 | Some kp \<Rightarrow>
                     (case val of
                        None \<Rightarrow> Inl (KeyError ''value'')
                      | Some vp \<Rightarrow>
                          (case iterate items of
                             Inl e \<Rightarrow> Inl e
                           | Inr xs \<Rightarrow>
                               encode_mapping_loop (encode_argument w kp) (encode_argument w vp)
                                 name xs []))))
         else if kind = ''structure'' then
           (case flds of
              None \<Rightarrow> Inl (KeyError ''fields'')
            | Some fs \<Rightarrow>
                (case v of
                   VDict d \<Rightarrow> struct_fields (encode_argument w) fs d (name @ ''.'')
                 | VList xs \<Rightarrow>
                     if xs = [] \<and> list_all (\<lambda>f. p_optional (snd f)) fs then Inr []
                     else Inl (TypeError ''struct fields'')
                 | _ \<Rightarrow> Inl (AttributeError ''copy'')))
         else if kind = ''argument'' then Inl RecursionError
         else if kind = ''struct_fields'' then Inl (ValueError ''unpack'')
         else Inl (AttributeError (''_encode_'' @ kind))))"
  by pat_completeness auto

termination
  by (relation "measure (\<lambda>(w, p, name, v). size p)")
     (auto simp: size_prod_fst_snd dest: size_param_in_fields)

declare encode_argument.simps [simp del]

text \<open>\<open>_API._encode_struct_fields\<close>.\<close>

definition encode_struct_fields ::
  "world \<Rightarrow> (string \<times> param) list \<Rightarrow> (pyval \<times> pyval) list \<Rightarrow> string \<Rightarrow> error + wire_dict" where
  "encode_struct_fields w flds arguments prefix =
     struct_fields (encode_argument w) flds arguments prefix"

section \<open>The error registry\<close>

text \<open>
  An \<open>_ErrorsContainer\<close> holds exception classes as attributes; it is the dictionary of
  its attributes.  Every name the module looks up is a result of
  \<open>_get_error_code_name\<close> and so ends in \<open>Error\<close>, which no attribute of the container
  class itself does.
\<close>

type_synonym errors_container = "(string \<times> exc_class) list"

definition add_error :: "errors_container \<Rightarrow> string \<Rightarrow> exc_class \<Rightarrow> errors_container" where
  "add_error errors error_name error = dict_set error_name error errors"

definition lookup_error :: "errors_container \<Rightarrow> string \<Rightarrow> exc_class option" where
  "lookup_error errors error_name = dict_get error_name errors"

definition ends_with :: "string \<Rightarrow> string \<Rightarrow> bool" where
  "ends_with s suffix = (length suffix \<le> length s \<and> drop (length s - length suffix) s = suffix)"

definition starts_with :: "string \<Rightarrow> string \<Rightarrow> bool" where
  "starts_with s prefix = (take (length prefix) s = prefix)"

definition get_error_code_name :: "string \<Rightarrow> string" where
  "get_error_code_name error_code =
     (if ends_with error_code ''Error'' then error_code else error_code @ ''Error'')"

text \<open>
  The schema maps an action name to a dictionary from versions to handlers.  Of a
  handler, \<open>h_errors\<close> is the list of the \<open>code\<close> entries of \<open>handler["errors"]\<close>, and
  \<open>h_parameters\<close> the list \<open>handler["parameters"]\<close>, each description paired with its
  \<open>name\<close> entry.
\<close>

record handler =
  h_errors :: "string list"
  h_parameters :: "(string \<times> param) list"

type_synonym schema = "(string \<times> (string \<times> handler) list) list"

text \<open>
  One round of the innermost loop of \<open>_build_exceptions\<close>.  The state is the number of
  classes built so far and the container; the class is built before the lookup.
\<close>

fun build_error :: "nat \<times> errors_container \<Rightarrow> string \<Rightarrow> nat \<times> errors_container" where
  "build_error (n, errors) code =
     (let exception_name = get_error_code_name code;
          exception_type = Built n exception_name
      in (Suc n,
          if lookup_error errors exception_name = None
          then add_error errors exception_name exception_type
          else errors))"

definition build_exceptions_loop :: "nat \<times> errors_container \<Rightarrow> schema \<Rightarrow> nat \<times> errors_container" where
  "build_exceptions_loop st schema =
     foldl (\<lambda>st action.
              foldl (\<lambda>st version. foldl build_error st (h_errors (snd version))) st (snd action))
           st schema"

definition build_exceptions :: "schema \<Rightarrow> errors_container" where
  "build_exceptions schema = snd (build_exceptions_loop (0, []) schema)"

text \<open>The module-level \<open>errors\<close>: the classes of the schema, then the five fixed ones.\<close>

definition module_errors :: "schema \<Rightarrow> errors_container" where
  "module_errors schema =
     add_error (add_error (add_error (add_error (add_error (build_exceptions schema)
       ''MultiError'' MultiError_class)
       ''Unauthorised'' UnauthorisedError_class)
       ''SignatureDoesNotMatchError'' SignatureDoesNotMatchError_class)
       ''AuthFailureError'' AuthFailureError_class)
       ''InvalidCredentialsError'' InvalidCredentialsError_class"

text \<open>Every error code the schema declares, in the order the loops visit them.\<close>

definition declared_codes :: "schema \<Rightarrow> string list" where
  "declared_codes schema =
     concat (map (\<lambda>action. concat (map (\<lambda>version. h_errors (snd version)) (snd action))) schema)"

text \<open>
  The invariant of the loops: after the codes \<open>codes\<close> have been visited, the state is
  their number and a container with one attribute for every normalised name, holding the
  class built at the first code of that name.
\<close>

definition registry_inv :: "string list \<Rightarrow> nat \<times> errors_container \<Rightarrow> bool" where
  "registry_inv codes st \<longleftrightarrow>
     fst st = length codes
     \<and> distinct (map fst (snd st))
     \<and> fst ` set (snd st) = get_error_code_name ` set codes
     \<and> (\<forall>(name, cls) \<in> set (snd st).
           \<exists>i < length codes. cls = Built i name \<and> get_error_code_name (codes ! i) = name
             \<and> (\<forall>j < i. get_error_code_name (codes ! j) \<noteq> name))"

text \<open>
  A schema of two actions that declare the same error code, and a third code; the
  second action has one required and one optional parameter.
\<close>

definition example_schema :: schema where
  "example_schema =
     [(''GetComputers'',
        [(''2011-08-01'', \<lparr>h_errors = [''UnknownComputer'', ''InvalidQuery''], h_parameters = []\<rparr>)]),
      (''RemoveComputers'',
        [(''2011-08-01'',
          \<lparr>h_errors = [''UnknownComputer''],
           h_parameters =
             [(''computer_ids'',
                 Param ''list'' False None
                   (Some (Param ''integer'' False None None None None None)) None None None),
              (''comment'', Param ''unicode'' True (Some VNone) None None None None)]\<rparr>)])]"

section \<open>HTTP errors\<close>

fun json_truthy :: "json \<Rightarrow> bool" where
  "json_truthy JNull = False"
| "json_truthy (JBool b) = b"
| "json_truthy (JNum n) = (n \<noteq> 0)"
| "json_truthy (JStr s) = (s \<noteq> [])"
| "json_truthy (JArr xs) = (xs \<noteq> [])"
| "json_truthy (JObj kvs) = (kvs \<noteq> [])"

text \<open>\<open>data[key]\<close> for a string key.\<close>

definition json_subscript :: "json \<Rightarrow> string \<Rightarrow> error + json" where
  "json_subscript data k =
     (case data of
        JObj kvs \<Rightarrow> (case dict_get k kvs of None \<Rightarrow> Inl (KeyError k) | Some v \<Rightarrow> Inr v)
      | _ \<Rightarrow> Inl (TypeError ''subscript''))"

definition json_iterate :: "json \<Rightarrow> error + json list" where
  "json_iterate data =
     (case data of
        JArr xs \<Rightarrow> Inr xs
      | JObj kvs \<Rightarrow> Inr (map (\<lambda>kv. JStr (fst kv)) kvs)
      | JStr s \<Rightarrow> Inr (map (\<lambda>c. JStr [c]) s)
      | _ \<Rightarrow> Inl (TypeError ''object is not iterable''))"

text \<open>
  \<open>HTTPError.__init__\<close>, for the class \<open>cls\<close> of the instance.  The result is the
  instance, or the exception the constructor itself raises: \<open>json.loads\<close> on a body that
  starts with a brace and is not JSON, or a missing \<open>error\<close> or \<open>message\<close> key.
\<close>

definition http_error_init ::
  "world \<Rightarrow> exc_class \<Rightarrow> nat \<Rightarrow> string option \<Rightarrow> json \<Rightarrow> error + exc" where
  "http_error_init w cls code message message_data =
     (case (case message of
              None \<Rightarrow> Inr JNull
            | Some m \<Rightarrow>
                if starts_with m ''{''
                then (case json_loads w m of None \<Rightarrow> Inl JSONDecodeError | Some j \<Rightarrow> Inr j)
                else Inr JNull) of
        Inl e \<Rightarrow> Inl e
      | Inr parsed \<Rightarrow>
          (let data = (if json_truthy message_data then message_data else parsed) in
           if json_truthy data then
             (case json_subscript data ''error'' of
                Inl e \<Rightarrow> Inl e
              | Inr error_code \<Rightarrow>
                  (case json_subscript data ''message'' of
                     Inl e \<Rightarrow> Inl e
                   | Inr error_message \<Rightarrow>
                       Inr (Exc cls code message data error_code error_message [])))
           else Inr (Exc cls code message data JNull JNull [])))"

text \<open>
  One round of the loop of \<open>MultiError.__init__\<close>: the exception for one sub-error.
  \<open>MultiError\<close> itself does not take the keyword \<open>message_data\<close>.
\<close>

definition sub_error_exception :: "world \<Rightarrow> errors_container \<Rightarrow> nat \<Rightarrow> json \<Rightarrow> error + exc" where
  "sub_error_exception w errors code sub_error =
     (case sub_error of
        JObj kvs \<Rightarrow>
          (case dict_get ''error'' kvs of
             None \<Rightarrow> http_error_init w APIError_class code None sub_error
           | Some c \<Rightarrow>
               (case c of
                  JNull \<Rightarrow> http_error_init w APIError_class code None sub_error
                | JStr s \<Rightarrow>
                    (case lookup_error errors (get_error_code_name s) of
                       None \<Rightarrow> http_error_init w APIError_class code None sub_error
                     | Some cls \<Rightarrow>
                         if cls = MultiError_class
                         then Inl (TypeError ''unexpected keyword argument'')
                         else http_error_init w cls code None sub_error)
                | _ \<Rightarrow> Inl (AttributeError ''endswith'')))
      | _ \<Rightarrow> Inl (AttributeError ''get''))"

fun sub_errors_loop :: "world \<Rightarrow> errors_container \<Rightarrow> nat \<Rightarrow> json list \<Rightarrow> exc list \<Rightarrow> error + exc list"
where
  "sub_errors_loop w errors code [] acc = Inr acc"
| "sub_errors_loop w errors code (sub_error # rest) acc =
     (case sub_error_exception w errors code sub_error of
        Inl e \<Rightarrow> Inl e
      | Inr exception \<Rightarrow> sub_errors_loop w errors code rest (acc @ [exception]))"

definition multi_error_init ::
  "world \<Rightarrow> errors_container \<Rightarrow> nat \<Rightarrow> string option \<Rightarrow> error + exc" where
  "multi_error_init w errors http_code message =
     (case http_error_init w MultiError_class http_code message JNull of
        Inl e \<Rightarrow> Inl e
      | Inr self \<Rightarrow>
          (case json_subscript (exc_message_data self) ''errors'' of
             Inl e \<Rightarrow> Inl e
           | Inr subs \<Rightarrow>
               (case json_iterate subs of
                  Inl e \<Rightarrow> Inl e
                | Inr xs \<Rightarrow>
                    (case sub_errors_loop w errors http_code xs [] of
                       Inl e \<Rightarrow> Inl e
                     | Inr es \<Rightarrow>
                         Inr (Exc (exc_cls self) (exc_code self) (exc_message self)
                                (exc_message_data self) (exc_error_code self)
                                (exc_error_message self) es)))))"

text \<open>\<open>error_class(code, message)\<close>: calling a class of the registry.\<close>

definition new_error ::
  "world \<Rightarrow> errors_container \<Rightarrow> exc_class \<Rightarrow> nat \<Rightarrow> string option \<Rightarrow> error + exc" where
  "new_error w errors cls code message =
     (if cls = MultiError_class then multi_error_init w errors code message
      else http_error_init w cls code message JNull)"

text \<open>The class relation \<open>issubclass(c, APIError)\<close>.\<close>

definition is_api_error_class :: "exc_class \<Rightarrow> bool" where
  "is_api_error_class c = (c \<noteq> HTTPError_class)"

section \<open>The signed query\<close>

text \<open>\<open>requests.Response.ok\<close>: false exactly for the statuses from 400 to 599.\<close>

definition response_ok :: "nat \<Rightarrow> bool" where
  "response_ok status = (\<not> (400 \<le> status \<and> status < 600))"

text \<open>A request handed to the network: the arguments of \<open>session.post\<close>.\<close>

record request =
  req_url :: string
  req_body :: string
  req_headers :: "(string \<times> string) list"

text \<open>
  \<open>fetch\<close>: one \<open>POST\<close>; a response that is not \<open>ok\<close> raises \<open>HTTPError\<close> with the
  status and the text.
\<close>

definition fetch :: "world \<Rightarrow> string \<Rightarrow> string \<Rightarrow> (string \<times> string) list \<Rightarrow> error + string" where
  "fetch w url post_body headers =
     (case http_post w url (utf8 post_body)
             (dict_set ''Content-type'' ''application/x-www-form-urlencoded'' headers) of
        Inl e \<Rightarrow> Inl e
      | Inr (status_code, text) \<Rightarrow>
          if \<not> response_ok status_code
          then (case http_error_init w HTTPError_class status_code (Some text) JNull of
                  Inl e \<Rightarrow> Inl e
                | Inr exception \<Rightarrow> Inl (Raised exception))
          else Inr text)"

definition lower :: "string \<Rightarrow> string" where
  "lower s = map (\<lambda>c. let n = (of_char c :: nat)
                      in if 65 \<le> n \<and> n \<le> 90 then char_of (n + 32) else c) s"

text \<open>\<open>parse\<close>: the host, the port and the path of a URL.\<close>

definition parse :: "world \<Rightarrow> string \<Rightarrow> error + (string \<times> int option \<times> string)" where
  "parse w url =
     (let lowurl = lower url in
      if \<not> (starts_with lowurl ''http://'' \<or> starts_with lowurl ''https://'')
      then Inl (SyntaxError url)
      else
        (let url' = strip url; path = url_rest w url'; host = url_netloc w url' in
         if CHR '':'' \<in> set host
         then (case split_on (CHR '':'') host of
                 [h, port] \<Rightarrow> Inr (h, py_int port, path)
               | _ \<Rightarrow> Inl (ValueError ''unpack''))
         else Inr (host, None, path)))"

text \<open>
  The first loop of \<open>run_query\<close>: every key, a string, is popped and stored again
  with its value.
\<close>

definition restore_params :: "wire_dict \<Rightarrow> wire_dict" where
  "restore_params params =
     foldl (\<lambda>d kv. dict_set (fst kv) (snd kv) (dict_pop (fst kv) d)) params params"

definition fixed_fields :: "world \<Rightarrow> string \<Rightarrow> string \<Rightarrow> string \<Rightarrow> wire_dict" where
  "fixed_fields w access_key action version =
     [(''access_key_id'', WStr access_key),
      (''action'', WStr action),
      (''signature_version'', WStr ''2''),
      (''signature_method'', WStr ''HmacSHA256''),
      (''timestamp'', WStr (gmtime_stamp w)),
      (''version'', WStr version)]"

text \<open>\<open>quote(value, safe)\<close> of a \<open>str\<close> or \<open>bytes\<close>.\<close>

fun quote :: "string \<Rightarrow> wire \<Rightarrow> string" where
  "quote safe (WStr s) = quote_from_bytes safe (utf8 s)"
| "quote safe (WBytes b) = quote_from_bytes safe b"

text \<open>
  \<open>sorted(params.items())\<close>: the keys of a dictionary are distinct, so the order of the
  pairs is the order of their keys.
\<close>

definition sorted_items :: "wire_dict \<Rightarrow> wire_dict" where
  "sorted_items params = sort_key fst params"

definition signed_params_of :: "wire_dict \<Rightarrow> string" where
  "signed_params_of params =
     str_join ''&'' (map (\<lambda>kv. quote ''~'' (WStr (fst kv)) @ ''='' @ quote ''~'' (snd kv))
                        (sorted_items params))"

definition signed_host_of :: "string \<Rightarrow> int option \<Rightarrow> string" where
  "signed_host_of host port =
     (case port of None \<Rightarrow> host | Some p \<Rightarrow> host @ '':'' @ int_str p)"

text \<open>
  The exception handler of \<open>run_query\<close>: an \<open>HTTPError\<close> with an error code whose name
  is in the registry is replaced by an instance of the registered class; any other is
  raised again as it is.
\<close>

definition get_error_code_name_json :: "json \<Rightarrow> error + string" where
  "get_error_code_name_json error_code =
     (case error_code of
        JStr s \<Rightarrow> Inr (get_error_code_name s)
      | _ \<Rightarrow> Inl (AttributeError ''endswith''))"

definition handle_http_error :: "world \<Rightarrow> errors_container \<Rightarrow> exc \<Rightarrow> error" where
  "handle_http_error w errors e =
     (if exc_error_code e \<noteq> JNull then
        (case get_error_code_name_json (exc_error_code e) of
           Inl err \<Rightarrow> err
         | Inr name \<Rightarrow>
             (case lookup_error errors name of
                None \<Rightarrow> Raised e
              | Some error_class \<Rightarrow>
                  (case new_error w errors error_class (exc_code e) (exc_message e) of
                     Inl err \<Rightarrow> err
                   | Inr e' \<Rightarrow> Raised e')))
      else Raised e)"

text \<open>
  \<open>run_query\<close>.  The result is what the call returns or raises, the dictionary \<open>params\<close>
  as the call leaves it, and the requests sent.
\<close>

definition run_query ::
  "world \<Rightarrow> errors_container \<Rightarrow> string \<Rightarrow> string \<Rightarrow> string \<Rightarrow> wire_dict \<Rightarrow> string \<Rightarrow> string
     \<Rightarrow> (error + string) \<times> wire_dict \<times> request list" where
  "run_query w errors access_key secret_key action params uri version =
     (let params1 = dict_update (restore_params params) (fixed_fields w access_key action version);
          method = ''POST''
      in case parse w uri of
           Inl e \<Rightarrow> (Inl e, params1, [])
         | Inr (host, port, path0) \<Rightarrow>
             (let signed_host = signed_host_of host port;
                  path = (if path0 = [] then ''/'' else path0);
                  uri1 = (if path0 = [] then uri @ ''/'' else uri);
                  signed_params = signed_params_of params1;
                  to_sign = method @ [CHR 0x0A] @ signed_host @ [CHR 0x0A] @ path @ [CHR 0x0A]
                            @ signed_params;
                  digest = hmac_sha256 w (utf8 secret_key) (utf8 to_sign);
                  signature = b64encode digest;
                  body = signed_params @ ''&signature='' @ quote ''/'' (WBytes signature);
                  headers = [(''Host'', signed_host)];
                  sent = \<lparr>req_url = uri1, req_body = utf8 body,
                          req_headers = dict_set ''Content-type''
                            ''application/x-www-form-urlencoded'' headers\<rparr>
              in case fetch w uri1 body headers of
                   Inr text \<Rightarrow> (Inr text, params1, [sent])
                 | Inl err \<Rightarrow>
                     (case err of
                        Raised e \<Rightarrow> (Inl (handle_http_error w errors e), params1, [sent])
                      | _ \<Rightarrow> (Inl err, params1, [sent]))))"

section \<open>The client\<close>

record api =
  api_uri :: string
  api_access_key :: string
  api_secret_key :: string
  api_json :: bool
  api_schema :: schema
  api_version :: string

datatype response = Decoded json | Text string

text \<open>\<open>_API.run_query\<close>; the version of the query is \<open>LATEST_VERSION\<close>.\<close>

definition LATEST_VERSION :: string where
  "LATEST_VERSION = ''2011-08-01''"

definition api_run_query ::
  "world \<Rightarrow> errors_container \<Rightarrow> api \<Rightarrow> string \<Rightarrow> wire_dict \<Rightarrow> (error + response) \<times> request list" where
  "api_run_query w errors self action_name arguments =
     (case run_query w errors (api_access_key self) (api_secret_key self) action_name arguments
             (api_uri self) LATEST_VERSION of
        (Inl e, params', sent) \<Rightarrow> (Inl e, sent)
      | (Inr text, params', sent) \<Rightarrow>
          if \<not> api_json self
          then (case json_loads w text of
                  None \<Rightarrow> (Inl JSONDecodeError, sent)
                | Some j \<Rightarrow> (Inr (Decoded j), sent))
          else (Inr (Text text), sent))"

text \<open>
  \<open>_API.call\<close>: the keyword arguments are encoded by the parameters of the action, and
  only then is the query run.
\<close>

definition api_call ::
  "world \<Rightarrow> errors_container \<Rightarrow> api \<Rightarrow> string \<Rightarrow> (string \<times> pyval) list
     \<Rightarrow> (error + response) \<times> request list" where
  "api_call w errors self method kwargs =
     (case dict_get method (api_schema self) of
        None \<Rightarrow> (Inl (KeyError method), [])
      | Some versions \<Rightarrow>
          (case dict_get (api_version self) versions of
             None \<Rightarrow> (Inl (KeyError (api_version self)), [])
           | Some action \<Rightarrow>
               (case encode_struct_fields w (h_parameters action)
                       (map (\<lambda>kv. (VStr (fst kv), snd kv)) kwargs) [] of
                  Inl e \<Rightarrow> (Inl e, [])
                | Inr arguments \<Rightarrow> api_run_query w errors self method arguments)))"

section \<open>The signing pipeline in the words of the specification\<close>

text \<open>
  The definitions of this section follow the specification, not the source; they are
  what \<open>run_query\<close> is compared with.  The unreserved characters of RFC 3986 are the
  letters, the digits, hyphen, full stop, underscore and tilde; percent-encoding keeps
  them and writes every other byte as a percent sign and two hex digits.
\<close>

definition unreserved :: "char \<Rightarrow> bool" where
  "unreserved c =
     ((CHR ''A'' \<le> c \<and> c \<le> CHR ''Z'') \<or> (CHR ''a'' \<le> c \<and> c \<le> CHR ''z'')
      \<or> (CHR ''0'' \<le> c \<and> c \<le> CHR ''9'')
      \<or> c = CHR ''-'' \<or> c = CHR ''.'' \<or> c = CHR ''_'' \<or> c = CHR ''~'')"

definition percent_encode :: "string \<Rightarrow> string" where
  "percent_encode bs =
     concat (map (\<lambda>c. if unreserved c then [c]
                       else [CHR ''%'', hex_digit (of_char c div 16), hex_digit (of_char c mod 16)])
                 bs)"

fun wire_bytes :: "wire \<Rightarrow> string" where
  "wire_bytes (WStr s) = utf8 s"
| "wire_bytes (WBytes b) = b"

text \<open>The canonical query string of pairs that are already sorted by key.\<close>

definition spec_canonical_query :: "wire_dict \<Rightarrow> string" where
  "spec_canonical_query pairs =
     str_join ''&''
       (map (\<lambda>kv. percent_encode (utf8 (fst kv)) @ ''='' @ percent_encode (wire_bytes (snd kv)))
            pairs)"

text \<open>
  The string to sign: the method, the host with its port if there is one, the path or
  a slash, and the canonical query string, joined by newlines.
\<close>

definition spec_string_to_sign :: "string \<Rightarrow> int option \<Rightarrow> string \<Rightarrow> string \<Rightarrow> string" where
  "spec_string_to_sign host port path query =
     str_join [CHR 0x0A]
       [''POST'',
        (case port of None \<Rightarrow> host | Some p \<Rightarrow> host @ '':'' @ int_str p),
        (if path = [] then ''/'' else path),
        query]"

text \<open>
  The signature: the base64 text of the HMAC-SHA256 of the string to sign under the
  secret key, percent-encoded, where a slash of the base64 text stays as it is.
\<close>

definition spec_signature :: "world \<Rightarrow> string \<Rightarrow> string \<Rightarrow> string" where
  "spec_signature w secret_key to_sign =
     concat (map (\<lambda>c. if unreserved c \<or> c = CHR ''/'' then [c]
                       else [CHR ''%'', hex_digit (of_char c div 16), hex_digit (of_char c mod 16)])
                 (b64encode (hmac_sha256 w (utf8 secret_key) (utf8 to_sign))))"

definition spec_signed_body :: "world \<Rightarrow> string \<Rightarrow> string \<Rightarrow> int option \<Rightarrow> string \<Rightarrow> wire_dict \<Rightarrow> string"
where
  "spec_signed_body w secret_key host port path pairs =
     spec_canonical_query pairs @ ''&signature=''
       @ spec_signature w secret_key
           (spec_string_to_sign host port path (spec_canonical_query pairs))"

section \<open>An example world\<close>

text \<open>
  A world for the worked examples: no files, a fixed clock, a URL parser that knows the
  one URL used, a stand-in digest, and a server that answers every request with an
  empty JSON list.
\<close>

definition example_world :: world where
  "example_world =
     \<lparr>read_file = (\<lambda>path. None),
      repr_of = (\<lambda>v. ''[...]''),
      hmac_sha256 = (\<lambda>k m. ''0123456789abcdef0123456789abcdef''),
      json_loads = (\<lambda>s. if s = ''[]'' then Some (JArr []) else None),
      gmtime_stamp = ''2020-01-01T00:00:00Z'',
      url_netloc = (\<lambda>u. ''landscape.example.com:8443''),
      url_rest = (\<lambda>u. ''/api/''),
      http_post = (\<lambda>url body headers. Inr (200, ''[]''))\<rparr>"

definition example_api :: api where
  "example_api =
     \<lparr>api_uri = ''https://landscape.example.com:8443/api/'',
      api_access_key = ''AKEY'',
      api_secret_key = ''SKEY'',
      api_json = False,
      api_schema = example_schema,
      api_version = ''2011-08-01''\<rparr>"

text \<open>
  A server that answers with status 404 and a body that \<open>json.loads\<close> reads as an
  object with the keys \<open>error\<close> and \<open>message\<close>, of the given error code.
\<close>

definition error_body :: string where
  "error_body = ''{error body}''"

definition error_world :: "string \<Rightarrow> world" where
  "error_world error_code =
     example_world
       \<lparr>json_loads := (\<lambda>s. if s = error_body
                              then Some (JObj [(''error'', JStr error_code),
                                               (''message'', JStr ''no such thing'')])
                              else None),
        http_post := (\<lambda>url body headers. Inr (404, error_body))\<rparr>"

text \<open>A server that answers with status 500 and a body that is not JSON.\<close>

definition broken_world :: world where
  "broken_world = example_world \<lparr>http_post := (\<lambda>url body headers. Inr (500, ''{oops''))\<rparr>"

section \<open>Properties of the list parser\<close>

lemma csv_scan_append:
  "foldl csv_step st (u @ v) = foldl csv_step (foldl csv_step st u) v"
  by simp

lemma csv_step_out_prefix:
  "csv_step (pre @ out, item, e) c =
     (case csv_step (out, item, e) c of (o', i', e') \<Rightarrow> (pre @ o', i', e'))"
  by simp

lemma csv_fold_out_prefix:
  "foldl csv_step (pre @ out, item, e) v =
     (case foldl csv_step (out, item, e) v of (o', i', e') \<Rightarrow> (pre @ o', i', e'))"
proof (induction v arbitrary: out item e)
  case Nil
  show ?case by simp
next
  case (Cons c v)
  obtain o1 i1 e1 where st: "csv_step (out, item, e) c = (o1, i1, e1)"
    by (cases "csv_step (out, item, e) c") auto
  have "csv_step (pre @ out, item, e) c = (pre @ o1, i1, e1)"
    using st by (simp only: csv_step_out_prefix split: prod.splits) simp
  then show ?case
    using st Cons.IH [of o1 i1 e1] by simp
qed

lemma csv_finish_out_prefix:
  "csv_finish (pre @ out, item, e) = pre @ csv_finish (out, item, e)"
  by (simp add: Let_def)

lemma csv_scan_escape_commas:
  "backslash \<notin> set p \<Longrightarrow>
   foldl csv_step (out, item, False) (escape_commas p) = (out, item @ p, False)"
proof (induction p arbitrary: item)
  case Nil
  show ?case by (simp add: escape_commas_def)
next
  case (Cons c p)
  have c: "c \<noteq> backslash" and p: "backslash \<notin> set p"
    using Cons.prems by auto
  have ec: "escape_commas (c # p) = (if c = comma then [backslash, comma] else [c]) @ escape_commas p"
    by (simp add: escape_commas_def)
  have "foldl csv_step (out, item, False) (if c = comma then [backslash, comma] else [c])
          = (out, item @ [c], False)"
    using c by simp
  then show ?case
    using Cons.IH [OF p, of "item @ [c]"] by (simp only: ec foldl_append) simp
qed

lemma csv_scan_join:
  "\<forall>p \<in> set parts. backslash \<notin> set p \<Longrightarrow> parts \<noteq> [] \<Longrightarrow>
   foldl csv_step (out, [], False) (join_csv_escaped parts)
     = (out @ butlast parts, last parts, False)"
proof (induction parts arbitrary: out)
  case Nil
  then show ?case by simp
next
  case (Cons p ps)
  have p: "backslash \<notin> set p" using Cons.prems by simp
  show ?case
  proof (cases ps)
    case Nil
    then show ?thesis
      using csv_scan_escape_commas [OF p, of out "[]"] by (simp add: join_csv_escaped_def)
  next
    case (Cons q qs)
    have j: "join_csv_escaped (p # ps) = escape_commas p @ [comma] @ join_csv_escaped ps"
      using Cons by (simp add: join_csv_escaped_def)
    have ps: "\<forall>p \<in> set ps. backslash \<notin> set p" "ps \<noteq> []"
      using Cons.prems Cons by auto
    have "foldl csv_step (out, [], False) (escape_commas p @ [comma]) = (out @ [p], [], False)"
      using csv_scan_escape_commas [OF p, of out "[]"] by simp
    then have "foldl csv_step (out, [], False) (join_csv_escaped (p # ps))
                 = foldl csv_step (out @ [p], [], False) (join_csv_escaped ps)"
      by (simp only: j foldl_append append_assoc [symmetric])
    then show ?thesis
      using Cons.IH [OF ps, of "out @ [p]"] ps(2) by simp
  qed
qed

lemma parse_csv_join_escaped:
  assumes "\<forall>p \<in> set parts. backslash \<notin> set p" and "parts \<noteq> [] \<longrightarrow> last parts \<noteq> []"
  shows "parse_csv_list_safely (join_csv_escaped parts) = parts"
proof (cases "parts = []")
  case True
  then show ?thesis
    by (simp add: parse_csv_list_safely_def csv_scan_def join_csv_escaped_def)
next
  case False
  have "csv_scan (join_csv_escaped parts) = (butlast parts, last parts, False)"
    using csv_scan_join [OF assms(1) False, of "[]"] by (simp add: csv_scan_def)
  then show ?thesis
    using assms(2) False by (simp add: parse_csv_list_safely_def)
qed

lemma parse_csv_trailing_backslash:
  "parse_csv_list_safely (s @ [backslash]) = csv_yielded s @ [csv_item s @ [backslash]]"
proof -
  obtain out item e where st: "csv_scan s = (out, item, e)"
    by (cases "csv_scan s") auto
  have "csv_scan (s @ [backslash]) = (out, item, True)"
    using st by (simp add: csv_scan_def)
  then show ?thesis
    using st by (simp add: parse_csv_list_safely_def csv_yielded_def csv_item_def)
qed

lemma parse_csv_append:
  "parse_csv_list_safely (u @ v)
     = csv_yielded u @ csv_finish (foldl csv_step ([], csv_item u, csv_escaped u) v)"
proof -
  obtain out item e where st: "csv_scan u = (out, item, e)"
    by (cases "csv_scan u") auto
  obtain o' i' e' where st': "foldl csv_step ([], item, e) v = (o', i', e')"
    by (cases "foldl csv_step ([], item, e) v") auto
  have "foldl csv_step (out @ [], item, e) v = (out @ o', i', e')"
    using st' by (simp only: csv_fold_out_prefix split: prod.splits) simp
  then have "csv_scan (u @ v) = (out @ o', i', e')"
    using st by (simp add: csv_scan_def)
  then show ?thesis
    using st st' csv_finish_out_prefix [of out o' i' e']
    by (simp add: parse_csv_list_safely_def csv_yielded_def csv_item_def csv_escaped_def
             del: csv_finish.simps)
qed

lemma csv_scan_no_backslash:
  "backslash \<notin> set s \<Longrightarrow> snd (snd (foldl csv_step (out, item, False) s)) = False"
proof (induction s arbitrary: out item)
  case Nil
  show ?case by simp
next
  case (Cons c s)
  have s: "backslash \<notin> set s" and c: "c \<noteq> backslash"
    using Cons.prems by auto
  show ?case
    using c Cons.IH [OF s] by simp
qed

text \<open>
  Claim C2 (round-trip escaping), as the parser has it.  The escaping that the spec
  describes writes a comma as backslash-comma and leaves a backslash as it is, so a
  backslash inside an item is not restored; and the parser drops an empty last item.
  For every list of items that contain no backslash and whose last item is not empty,
  parsing the escaped, comma-joined text gives the items back; the spec's example
  \<open>a\,b,c\<close> parses to \<open>a,b\<close> and \<open>c\<close>; and for every input, a backslash that is the
  last character of the input is kept: the last item parsed is the pending item followed
  by that backslash.
\<close>

theorem csv_round_trip:
  "(\<forall>parts. (\<forall>p \<in> set parts. backslash \<notin> set p) \<and> (parts \<noteq> [] \<longrightarrow> last parts \<noteq> [])
       \<longrightarrow> parse_csv_list_safely (join_csv_escaped parts) = parts)
   \<and> parse_csv_list_safely (''a'' @ [backslash] @ '',b,c'') = [''a,b'', ''c'']
   \<and> (\<forall>s. parse_csv_list_safely (s @ [backslash]) = csv_yielded s @ [csv_item s @ [backslash]])"
proof (intro conjI allI impI)
  fix parts :: "string list"
  assume "(\<forall>p \<in> set parts. backslash \<notin> set p) \<and> (parts \<noteq> [] \<longrightarrow> last parts \<noteq> [])"
  then show "parse_csv_list_safely (join_csv_escaped parts) = parts"
    using parse_csv_join_escaped [of parts] by blast
next
  show "parse_csv_list_safely (''a'' @ [backslash] @ '',b,c'') = [''a,b'', ''c'']"
    by (simp add: parse_csv_list_safely_def csv_scan_def)
next
  fix s
  show "parse_csv_list_safely (s @ [backslash]) = csv_yielded s @ [csv_item s @ [backslash]]"
    by (rule parse_csv_trailing_backslash)
qed

theorem csv_round_trip_witness:
  "parse_csv_list_safely (join_csv_escaped [''a,b'', ''c'']) = [''a,b'', ''c'']
   \<and> join_csv_escaped [''a,b'', ''c''] = ''a'' @ [backslash] @ '',b,c''
   \<and> parse_csv_list_safely (''x'' @ [backslash]) = [''x'' @ [backslash]]"
proof -
  have r: "(\<forall>p \<in> set parts. backslash \<notin> set p) \<and> (parts \<noteq> [] \<longrightarrow> last parts \<noteq> [])
       \<longrightarrow> parse_csv_list_safely (join_csv_escaped parts) = parts" for parts
    using csv_round_trip by blast
  have b: "parse_csv_list_safely (s @ [backslash]) = csv_yielded s @ [csv_item s @ [backslash]]"
    for s
    using csv_round_trip by blast
  have "parse_csv_list_safely (join_csv_escaped [''a,b'', ''c'']) = [''a,b'', ''c'']"
    using r [of "[''a,b'', ''c'']"] by simp
  moreover have "join_csv_escaped [''a,b'', ''c''] = ''a'' @ [backslash] @ '',b,c''"
    by (simp add: join_csv_escaped_def escape_commas_def)
  moreover have "parse_csv_list_safely (''x'' @ [backslash]) = [''x'' @ [backslash]]"
    using b [of "''x''"] by (simp add: csv_yielded_def csv_item_def csv_scan_def)
  ultimately show ?thesis by blast
qed

text \<open>
  The round trip as the claim states it, for all items with commas and backslashes,
  fails: an item that ends in a backslash, followed by another item, is joined as
  backslash-comma, which the parser reads as an escaped comma.
\<close>

theorem csv_round_trip_counterexample:
  "parse_csv_list_safely (join_csv_escaped [''a'' @ [backslash], ''b''])
     \<noteq> [''a'' @ [backslash], ''b'']"
  by (simp add: parse_csv_list_safely_def csv_scan_def join_csv_escaped_def escape_commas_def)

text \<open>
  Claim C10 (trailing empty segment), as the parser has it.  When the \<open>escaped\<close> flag
  is clear after reading \<open>s\<close>, the input \<open>s,\<close> parses to the items yielded while
  reading \<open>s\<close> followed by the pending item, and to nothing more: no item is produced for
  the empty segment after the trailing comma.  That is the parse of \<open>s\<close> itself
  when the pending item is not empty.  A leading comma yields an empty item, and so do
  two adjacent commas read with the flag clear.  An input without a backslash never sets
  the flag.
\<close>

theorem csv_trailing_comma:
  "(\<forall>s. \<not> csv_escaped s \<longrightarrow>
        parse_csv_list_safely (s @ [comma]) = csv_yielded s @ [csv_item s]
      \<and> (csv_item s \<noteq> [] \<longrightarrow> parse_csv_list_safely (s @ [comma]) = parse_csv_list_safely s))
   \<and> (\<forall>t. parse_csv_list_safely (comma # t) = [] # parse_csv_list_safely t)
   \<and> (\<forall>s t. \<not> csv_escaped s \<longrightarrow>
        parse_csv_list_safely (s @ [comma, comma] @ t)
          = csv_yielded s @ [csv_item s, []] @ parse_csv_list_safely t)
   \<and> (\<forall>s. backslash \<notin> set s \<longrightarrow> \<not> csv_escaped s)"
proof (intro conjI allI impI)
  fix s assume e: "\<not> csv_escaped s"
  obtain out item where st: "csv_scan s = (out, item, False)"
    using e by (cases "csv_scan s") (auto simp: csv_escaped_def)
  have sc: "csv_scan (s @ [comma]) = (out @ [item], [], False)"
    using st by (simp add: csv_scan_def)
  show a: "parse_csv_list_safely (s @ [comma]) = csv_yielded s @ [csv_item s]"
    using st sc by (simp add: parse_csv_list_safely_def csv_yielded_def csv_item_def)
  assume "csv_item s \<noteq> []"
  then show "parse_csv_list_safely (s @ [comma]) = parse_csv_list_safely s"
    using st sc by (simp add: parse_csv_list_safely_def csv_item_def)
next
  fix t
  have "csv_scan [comma] = ([[]], [], False)"
    by (simp add: csv_scan_def)
  then have "parse_csv_list_safely ([comma] @ t)
               = [[]] @ csv_finish (foldl csv_step ([], [], False) t)"
    by (simp only: parse_csv_append csv_yielded_def csv_item_def csv_escaped_def fst_conv snd_conv)
  then show "parse_csv_list_safely (comma # t) = [] # parse_csv_list_safely t"
    by (simp add: parse_csv_list_safely_def csv_scan_def)
next
  fix s t assume e: "\<not> csv_escaped s"
  obtain out item where st: "csv_scan s = (out, item, False)"
    using e by (cases "csv_scan s") (auto simp: csv_escaped_def)
  have sc: "csv_scan (s @ [comma, comma]) = (out @ [item, []], [], False)"
    using st by (simp add: csv_scan_def)
  have "parse_csv_list_safely ((s @ [comma, comma]) @ t)
          = (out @ [item, []]) @ csv_finish (foldl csv_step ([], [], False) t)"
    using sc by (simp only: parse_csv_append csv_yielded_def csv_item_def csv_escaped_def
      fst_conv snd_conv)
  then show "parse_csv_list_safely (s @ [comma, comma] @ t)
          = csv_yielded s @ [csv_item s, []] @ parse_csv_list_safely t"
    using st by (simp add: parse_csv_list_safely_def csv_scan_def csv_yielded_def csv_item_def)
next
  fix s :: string assume "backslash \<notin> set s"
  then show "\<not> csv_escaped s"
    using csv_scan_no_backslash [of s "[]" "[]"] by (simp add: csv_escaped_def csv_scan_def)
qed

theorem csv_trailing_comma_witness:
  "\<not> csv_escaped ''a,b'' \<and> csv_item ''a,b'' \<noteq> []
   \<and> parse_csv_list_safely (''a,b'' @ [comma]) = [''a'', ''b'']
   \<and> parse_csv_list_safely (''a,b'' @ [comma]) = parse_csv_list_safely ''a,b''
   \<and> parse_csv_list_safely (''a'' @ [comma, comma] @ ''b'') = [''a'', [], ''b'']"
proof -
  have e: "\<not> csv_escaped ''a,b''" "\<not> csv_escaped ''a''" and i: "csv_item ''a,b'' \<noteq> []"
    by (simp_all add: csv_escaped_def csv_item_def csv_scan_def)
  have y: "csv_yielded ''a,b'' = [''a'']" "csv_item ''a,b'' = ''b''"
      "csv_yielded ''a'' = []" "csv_item ''a'' = ''a''"
    by (simp_all add: csv_yielded_def csv_item_def csv_scan_def)
  have b: "parse_csv_list_safely ''b'' = [''b'']"
    by (simp add: parse_csv_list_safely_def csv_scan_def)
  have t1: "\<not> csv_escaped s \<longrightarrow>
        parse_csv_list_safely (s @ [comma]) = csv_yielded s @ [csv_item s]
      \<and> (csv_item s \<noteq> [] \<longrightarrow> parse_csv_list_safely (s @ [comma]) = parse_csv_list_safely s)"
    for s
    using csv_trailing_comma by blast
  have t3: "\<not> csv_escaped s \<longrightarrow>
        parse_csv_list_safely (s @ [comma, comma] @ t)
          = csv_yielded s @ [csv_item s, []] @ parse_csv_list_safely t" for s t
    using csv_trailing_comma by blast
  have "parse_csv_list_safely (''a,b'' @ [comma]) = [''a'', ''b'']"
    using t1 [of "''a,b''"] e(1) y by simp
  moreover have "parse_csv_list_safely (''a,b'' @ [comma]) = parse_csv_list_safely ''a,b''"
    using t1 [of "''a,b''"] e(1) i by blast
  moreover have "parse_csv_list_safely (''a'' @ [comma, comma] @ ''b'') = [''a'', [], ''b'']"
    using t3 [of "''a''" "''b''"] e(2) y b by simp
  ultimately show ?thesis using e i by blast
qed

text \<open>
  The claim as stated, that the parse of an input ending in an unescaped comma is the
  parse of the input without that comma, fails when the segment before the comma is
  empty: a lone comma parses to one empty item, the empty input to none.
\<close>

theorem csv_trailing_comma_counterexample:
  "\<not> csv_escaped [] \<and> parse_csv_list_safely ([] @ [comma]) \<noteq> parse_csv_list_safely []"
  by (simp add: parse_csv_list_safely_def csv_scan_def csv_escaped_def)

section \<open>Properties of dictionaries\<close>

lemma dict_get_dict_set:
  "dict_get k' (dict_set k v d) = (if k' = k then Some v else dict_get k' d)"
  by (induction d) (auto simp: dict_get_def)


lemma dict_set_absent:
  "k \<notin> fst ` set d \<Longrightarrow> dict_set k v d = d @ [(k, v)]"
  by (induction d) auto


lemma dict_get_None_iff:
  "dict_get k d = None \<longleftrightarrow> k \<notin> fst ` set d"
  by (simp add: dict_get_def map_of_eq_None_iff)


lemma dict_get_in_distinct:
  "distinct (map fst d) \<Longrightarrow> (k, v) \<in> set d \<Longrightarrow> dict_get k d = Some v"
  by (simp add: dict_get_def)



lemma distinct_filter_one:
  "distinct (map fst d) \<Longrightarrow> k \<in> fst ` set d \<Longrightarrow> length (filter (\<lambda>e. fst e = k) d) = 1"
proof (induction d)
  case Nil
  then show ?case by simp
next
  case (Cons e d)
  show ?case
  proof (cases "fst e = k")
    case True
    have "k \<notin> fst ` set d"
      using Cons.prems(1) True by auto
    then have "\<forall>x \<in> set d. fst x \<noteq> k"
      by (auto simp: image_iff)
    then have "filter (\<lambda>e. fst e = k) d = []"
      by (simp add: filter_empty_conv)
    then show ?thesis using True by simp
  next
    case False
    then show ?thesis using Cons by auto
  qed
qed


section \<open>Properties of the error registry\<close>

lemma build_exceptions_loop_flat:
  "build_exceptions_loop st schema = foldl build_error st (declared_codes schema)"
proof (induction schema arbitrary: st)
  case Nil
  show ?case by (simp add: build_exceptions_loop_def declared_codes_def)
next
  case (Cons action schema)
  have inner: "foldl (\<lambda>st version. foldl build_error st (h_errors (snd version))) s vs
                 = foldl build_error s (concat (map (\<lambda>version. h_errors (snd version)) vs))"
    for s and vs :: "(string \<times> handler) list"
    by (induction vs arbitrary: s) simp_all
  show ?case
    using Cons.IH by (simp add: build_exceptions_loop_def declared_codes_def inner)
qed


lemma registry_inv_build:
  "registry_inv codes (foldl build_error (0, []) codes)"
proof (induction codes rule: rev_induct)
  case Nil
  show ?case by (simp add: registry_inv_def)
next
  case (snoc c codes)
  obtain n reg where st: "foldl build_error (0, []) codes = (n, reg)"
    by (cases "foldl build_error (0, []) codes") auto
  have inv: "registry_inv codes (n, reg)"
    using snoc.IH st by simp
  let ?nm = "get_error_code_name c"
  let ?P = "\<lambda>name cls. \<exists>i < length (codes @ [c]). cls = Built i name
               \<and> get_error_code_name ((codes @ [c]) ! i) = name
               \<and> (\<forall>j < i. get_error_code_name ((codes @ [c]) ! j) \<noteq> name)"
  have n: "n = length codes"
    using inv by (simp add: registry_inv_def)
  have d: "distinct (map fst reg)"
    using inv by (simp add: registry_inv_def)
  have dom: "fst ` set reg = get_error_code_name ` set codes"
    using inv by (simp add: registry_inv_def)
  have ent: "\<forall>(name, cls) \<in> set reg. \<exists>i < length codes. cls = Built i name
               \<and> get_error_code_name (codes ! i) = name
               \<and> (\<forall>j < i. get_error_code_name (codes ! j) \<noteq> name)"
    using inv by (simp add: registry_inv_def)
  have old: "?P name cls" if m: "(name, cls) \<in> set reg" for name cls
  proof -
    obtain i where i: "i < length codes" "cls = Built i name"
        "get_error_code_name (codes ! i) = name"
        "\<forall>j < i. get_error_code_name (codes ! j) \<noteq> name"
      using ent m by blast
    have "i < length (codes @ [c])" using i(1) by simp
    moreover have "get_error_code_name ((codes @ [c]) ! i) = name"
      using i(1,3) by (simp add: nth_append)
    moreover have "\<forall>j < i. get_error_code_name ((codes @ [c]) ! j) \<noteq> name"
      using i(1,4) by (simp add: nth_append)
    ultimately show ?thesis using i(2) by blast
  qed
  show ?case
  proof (cases "?nm \<in> fst ` set reg")
    case True
    then have look: "lookup_error reg ?nm \<noteq> None"
      by (simp add: lookup_error_def dict_get_None_iff)
    have step: "foldl build_error (0, []) (codes @ [c]) = (Suc n, reg)"
      using st look by (auto simp: Let_def)
    have dom': "fst ` set reg = get_error_code_name ` set (codes @ [c])"
      using dom True by auto
    have ent': "\<forall>(name, cls) \<in> set reg. ?P name cls"
      using old by blast
    show ?thesis
      unfolding step registry_inv_def fst_conv snd_conv
      using n d dom' ent' by simp
  next
    case False
    then have look: "lookup_error reg ?nm = None"
      by (simp add: lookup_error_def dict_get_None_iff)
    have step: "foldl build_error (0, []) (codes @ [c]) = (Suc n, reg @ [(?nm, Built n ?nm)])"
      using st look False by (simp add: Let_def add_error_def dict_set_absent)
    have fresh: "\<forall>j < length codes. get_error_code_name (codes ! j) \<noteq> ?nm"
    proof (intro allI impI)
      fix j assume "j < length codes"
      then have "get_error_code_name (codes ! j) \<in> get_error_code_name ` set codes"
        by simp
      then show "get_error_code_name (codes ! j) \<noteq> ?nm"
        using False dom by metis
    qed
    have new: "?P ?nm (Built n ?nm)"
    proof -
      have "n < length (codes @ [c])" using n by simp
      moreover have "get_error_code_name ((codes @ [c]) ! n) = ?nm"
        using n by simp
      moreover have "\<forall>j < n. get_error_code_name ((codes @ [c]) ! j) \<noteq> ?nm"
        using fresh n by (simp add: nth_append)
      ultimately show ?thesis by blast
    qed
    have d': "distinct (map fst (reg @ [(?nm, Built n ?nm)]))"
      using d False by simp
    have dom': "fst ` set (reg @ [(?nm, Built n ?nm)]) = get_error_code_name ` set (codes @ [c])"
      using dom by auto
    have ent': "\<forall>(name, cls) \<in> set (reg @ [(?nm, Built n ?nm)]). ?P name cls"
    proof (intro ballI)
      fix e assume e: "e \<in> set (reg @ [(?nm, Built n ?nm)])"
      obtain name cls where nc: "e = (name, cls)" by (cases e)
      have "?P name cls"
      proof (cases "(name, cls) \<in> set reg")
        case True
        then show ?thesis by (rule old)
      next
        case False
        then have "name = ?nm" "cls = Built n ?nm" using e nc by auto
        then show ?thesis using new by simp
      qed
      then show "case e of (name, cls) \<Rightarrow> ?P name cls"
        using nc by simp
    qed
    have len: "Suc n = length (codes @ [c])" using n by simp
    show ?thesis
      unfolding step registry_inv_def fst_conv snd_conv
      using len d' dom' ent' by blast
  qed
qed

text \<open>
  Claim C8 (error class de-duplication).  For every occurrence of an error code in the
  schema, at position \<open>k\<close> of the codes in the order the loops visit them, the container
  built has exactly one attribute of the normalised name, and \<open>lookup_error\<close> returns for
  it the class built at the first occurrence of a code with that name: the same class
  object at every occurrence, whatever the action and version.
\<close>

theorem error_registry_deduplicated:
  "\<forall>k < length (declared_codes schema).
     length (filter (\<lambda>e. fst e = get_error_code_name (declared_codes schema ! k))
               (build_exceptions schema)) = 1
     \<and> (\<exists>i \<le> k.
           lookup_error (build_exceptions schema) (get_error_code_name (declared_codes schema ! k))
             = Some (Built i (get_error_code_name (declared_codes schema ! k)))
           \<and> get_error_code_name (declared_codes schema ! i)
               = get_error_code_name (declared_codes schema ! k)
           \<and> (\<forall>j < i. get_error_code_name (declared_codes schema ! j)
                          \<noteq> get_error_code_name (declared_codes schema ! k)))"
proof (intro allI impI)
  fix k assume k: "k < length (declared_codes schema)"
  let ?codes = "declared_codes schema"
  let ?name = "get_error_code_name (?codes ! k)"
  obtain n reg where st: "foldl build_error (0, []) ?codes = (n, reg)"
    by (cases "foldl build_error (0, []) ?codes") auto
  have reg: "build_exceptions schema = reg"
    using st by (simp add: build_exceptions_def build_exceptions_loop_flat)
  have inv: "registry_inv ?codes (n, reg)"
    using registry_inv_build [of ?codes] st by simp
  have d: "distinct (map fst reg)" and dom: "fst ` set reg = get_error_code_name ` set ?codes"
    using inv by (simp_all add: registry_inv_def)
  have mem: "?name \<in> fst ` set reg"
    using k dom by auto
  then obtain cls where cls: "(?name, cls) \<in> set reg"
    by auto
  obtain i where i: "i < length ?codes" "cls = Built i ?name"
      "get_error_code_name (?codes ! i) = ?name"
      "\<forall>j < i. get_error_code_name (?codes ! j) \<noteq> ?name"
  proof -
    have "\<forall>(name, cls) \<in> set reg. \<exists>i < length ?codes. cls = Built i name
               \<and> get_error_code_name (?codes ! i) = name
               \<and> (\<forall>j < i. get_error_code_name (?codes ! j) \<noteq> name)"
      using inv by (simp add: registry_inv_def)
    then show ?thesis using cls that by blast
  qed
  have "i \<le> k"
  proof (rule ccontr)
    assume "\<not> i \<le> k"
    then have "k < i" by simp
    then show False using i(4) by blast
  qed
  moreover have "lookup_error reg ?name = Some (Built i ?name)"
    using dict_get_in_distinct [OF d cls] i(2) by (simp add: lookup_error_def)
  ultimately have "\<exists>i \<le> k. lookup_error reg ?name = Some (Built i ?name)
      \<and> get_error_code_name (?codes ! i) = ?name
      \<and> (\<forall>j < i. get_error_code_name (?codes ! j) \<noteq> ?name)"
    using i(3,4) by blast
  moreover have "length (filter (\<lambda>e. fst e = ?name) reg) = 1"
    using distinct_filter_one [OF d mem] .
  ultimately show "length (filter (\<lambda>e. fst e = ?name) (build_exceptions schema)) = 1
     \<and> (\<exists>i \<le> k. lookup_error (build_exceptions schema) ?name = Some (Built i ?name)
           \<and> get_error_code_name (?codes ! i) = ?name
           \<and> (\<forall>j < i. get_error_code_name (?codes ! j) \<noteq> ?name))"
    unfolding reg by blast
qed

theorem error_registry_deduplicated_witness:
  "2 < length (declared_codes example_schema)
   \<and> get_error_code_name (declared_codes example_schema ! 2) = ''UnknownComputerError''
   \<and> length (filter (\<lambda>e. fst e = ''UnknownComputerError'') (build_exceptions example_schema)) = 1
   \<and> (\<exists>i \<le> 2. lookup_error (build_exceptions example_schema) ''UnknownComputerError''
                  = Some (Built i ''UnknownComputerError''))"
proof -
  have l: "2 < length (declared_codes example_schema)"
    by (simp add: declared_codes_def example_schema_def)
  have nm: "get_error_code_name (declared_codes example_schema ! 2) = ''UnknownComputerError''"
    by (simp add: declared_codes_def example_schema_def get_error_code_name_def ends_with_def)
  show ?thesis
    using error_registry_deduplicated [of example_schema, rule_format, OF l] l
    unfolding nm by blast
qed

end
